theory Spec2Isabelle
  imports Complex_Main
begin

section \<open>Values and exceptions\<close>

text \<open>
  The exceptions that the modelled functions can raise. A call that raises is the
  value \<open>Inl e\<close>, a call that returns \<open>v\<close> is \<open>Inr v\<close>.
\<close>

datatype error =
    FileNotFoundError
  | PermissionError
  | JSONDecodeError
  | ConnectionError
  | IndexError
  | ValueError
  | OverflowError

text \<open>
  A floating-point result is a finite number or the not-a-number value. Arithmetic on
  finite numbers is exact in this model: rounding is left out.
\<close>

datatype npfloat = Finite rat | NaN

section \<open>The numpy operations used by the aggregation\<close>

text \<open>
  \<open>np.unique\<close> sorts a copy of its argument and drops every element equal to its
  predecessor.
\<close>

definition np_unique :: "int list \<Rightarrow> int list" where
  "np_unique ar = remdups_adj (sort ar)"

text \<open>
  \<open>a[mask]\<close> with a boolean mask: the mask must be as long as the array
  (otherwise numpy raises IndexError), and the elements at the true positions are
  copied in order.
\<close>

definition np_bool_index :: "'a list \<Rightarrow> bool list \<Rightarrow> error + 'a list" where
  "np_bool_index a msk =
     (if length msk \<noteq> length a then Inl IndexError
      else Inr (map fst (filter snd (zip a msk))))"

text \<open>
  The mean in exact arithmetic: the sum divided by the number of elements, not-a-number on
  an empty array. \<open>np.mean\<close> computes in 64-bit floating point, so it rounds and can
  overflow; its result is this value only where the sum and the quotient need no
  rounding. The aggregation below therefore does not use this function: it takes the mean
  as a parameter. The exact mean stands for \<open>np.mean\<close> in the summary, where no claim
  depends on the printed averages, and in the examples, whose means (3, 4, 7 and 5/2) a
  float computes exactly.
\<close>

definition np_mean :: "rat list \<Rightarrow> npfloat" where
  "np_mean a = (if a = [] then NaN else Finite (sum_list a / of_nat (length a)))"

section \<open>Aggregation by year\<close>

text \<open>
  The loop of \<open>analyze_earthquakes_by_year\<close> over the unique years. The two
  accumulators are the lists \<open>frequency_per_year\<close> and \<open>avg_magnitude_per_year\<close>,
  appended to in each iteration. The parameter \<open>mean\<close> is \<open>np.mean\<close>, a library
  function: it maps the selected magnitudes, in their order, to the floating-point value
  numpy returns for them, whatever that value is (a rounded mean, an infinity on overflow).
  The magnitudes themselves are finite floats, each of which is a rational number.
\<close>

fun year_loop ::
  "(rat list \<Rightarrow> 'm) \<Rightarrow> int list \<Rightarrow> rat list \<Rightarrow> int list \<Rightarrow> nat list \<Rightarrow> 'm list
     \<Rightarrow> error + (nat list \<times> 'm list)" where
  "year_loop mean years magnitudes [] frequency_per_year avg_magnitude_per_year =
     Inr (frequency_per_year, avg_magnitude_per_year)"
| "year_loop mean years magnitudes (year # rest) frequency_per_year avg_magnitude_per_year =
     (let year_mask = map (\<lambda>y. y = year) years in
      case np_bool_index magnitudes year_mask of
        Inl e \<Rightarrow> Inl e
      | Inr year_magnitudes \<Rightarrow>
          (let frequency = length year_magnitudes;
               avg_magnitude = mean year_magnitudes
           in year_loop mean years magnitudes rest
                (frequency_per_year @ [frequency])
                (avg_magnitude_per_year @ [avg_magnitude])))"

definition analyze_earthquakes_by_year ::
  "(rat list \<Rightarrow> 'm) \<Rightarrow> int list \<Rightarrow> rat list \<Rightarrow> error + (int list \<times> nat list \<times> 'm list)" where
  "analyze_earthquakes_by_year mean years magnitudes =
     (let unique_years = np_unique years in
      case year_loop mean years magnitudes unique_years [] [] of
        Inl e \<Rightarrow> Inl e
      | Inr (frequency_per_year, avg_magnitude_per_year) \<Rightarrow>
          Inr (unique_years, frequency_per_year, avg_magnitude_per_year))"

text \<open>
  The value of \<open>magnitudes[years == y]\<close> for arrays of equal length: the
  magnitudes paired with the year \<open>y\<close>, in input order.
\<close>

definition year_group :: "int list \<Rightarrow> rat list \<Rightarrow> int \<Rightarrow> rat list" where
  "year_group years magnitudes y = map fst (filter (\<lambda>p. snd p = y) (zip magnitudes years))"

section \<open>The record set\<close>

text \<open>
  The decoded response of the feed, typed by the shape the code reads: a collection of
  features, each with \<open>properties.time\<close> (integer milliseconds since the epoch),
  \<open>properties.mag\<close> and \<open>geometry.coordinates\<close> (longitude, latitude, altitude).
\<close>

record properties =
  time :: int
  mag :: rat

record geometry =
  coordinates :: "rat \<times> rat \<times> rat"

record earthquake =
  properties :: properties
  geometry :: geometry

record geojson =
  features :: "earthquake list"

section \<open>Loading the record set\<close>

text \<open>
  What \<open>get_data\<close> touches outside the program: the cache file
  \<open>earthquake_data.json\<close>, whether that file can be opened for writing, the body the
  feed answers with (\<open>None\<close> when the request itself raises), and the lines printed so far.
  A document is either the JSON text of a record set or text that is not JSON.
\<close>

datatype document = Document geojson | Garbage

datatype local_file = Absent | Unreadable | Holds document

record world =
  cache_file :: local_file
  cache_writable :: bool
  feed :: "document option"
  stdout :: "string list"

definition json_load :: "document \<Rightarrow> error + geojson" where
  "json_load d = (case d of Document data \<Rightarrow> Inr data | Garbage \<Rightarrow> Inl JSONDecodeError)"

definition print_line :: "string \<Rightarrow> world \<Rightarrow> world" where
  "print_line s w = w\<lparr>stdout := stdout w @ [s]\<rparr>"

text \<open>
  The \<open>try\<close> block of \<open>get_data\<close>. \<open>Some r\<close>: the function is left here, returning the
  loaded data or raising. \<open>None\<close>: FileNotFoundError was caught and control falls through
  to the fetch. Only FileNotFoundError is caught.
\<close>

definition load_local_file :: "world \<Rightarrow> (error + geojson) option \<times> world" where
  "load_local_file w =
     (case cache_file w of
        Absent \<Rightarrow>
          (None, print_line ''Local file earthquake_data.json not found. Fetching from API...'' w)
      | Unreadable \<Rightarrow> (Some (Inl PermissionError), w)
      | Holds d \<Rightarrow>
          (case json_load d of
             Inl e \<Rightarrow> (Some (Inl e), w)
           | Inr data \<Rightarrow> (Some (Inr data), print_line ''Loaded data from local file'' w)))"

text \<open>The rest of \<open>get_data\<close>: the request, the parse and the optional save.\<close>

definition fetch_from_api :: "bool \<Rightarrow> world \<Rightarrow> (error + geojson) \<times> world" where
  "fetch_from_api save_to_file w =
     (let w1 = print_line ''Fetching data from API...'' w in
      case feed w1 of
        None \<Rightarrow> (Inl ConnectionError, w1)
      | Some response_text \<Rightarrow>
          (case json_load response_text of
             Inl e \<Rightarrow> (Inl e, w1)
           | Inr data \<Rightarrow>
               if save_to_file then
                 (if cache_writable w1
                  then (Inr data,
                        print_line ''Data saved to earthquake_data.json''
                          (w1\<lparr>cache_file := Holds (Document data)\<rparr>))
                  else (Inl PermissionError, w1))
               else (Inr data, w1)))"

definition get_data :: "bool \<Rightarrow> bool \<Rightarrow> world \<Rightarrow> (error + geojson) \<times> world" where
  "get_data use_local_file save_to_file w =
     (if use_local_file then
        (case load_local_file w of
           (Some r, w1) \<Rightarrow> (r, w1)
         | (None, w1) \<Rightarrow> fetch_from_api save_to_file w1)
      else fetch_from_api save_to_file w)"

section \<open>Exploring the record set\<close>

definition count_earthquakes :: "geojson \<Rightarrow> nat" where
  "count_earthquakes data = length (features data)"

definition get_magnitude :: "earthquake \<Rightarrow> rat" where
  "get_magnitude earthquake = mag (properties earthquake)"

definition get_location :: "earthquake \<Rightarrow> rat \<times> rat" where
  "get_location earthquake =
     (case coordinates (geometry earthquake) of (c0, c1, c2) \<Rightarrow> (c1, c0))"

text \<open>
  Python's \<open>max(iterable, key=f)\<close>: the first item is the candidate, a later item replaces
  it only when its key is strictly greater; ValueError on an empty iterable.
\<close>

fun max_scan :: "('a \<Rightarrow> rat) \<Rightarrow> 'a \<Rightarrow> 'a list \<Rightarrow> 'a" where
  "max_scan key maxitem [] = maxitem"
| "max_scan key maxitem (item # rest) =
     (if key item > key maxitem then max_scan key item rest else max_scan key maxitem rest)"

definition py_max :: "('a \<Rightarrow> rat) \<Rightarrow> 'a list \<Rightarrow> error + 'a" where
  "py_max key items = (case items of [] \<Rightarrow> Inl ValueError | item # rest \<Rightarrow> Inr (max_scan key item rest))"

definition get_maximum :: "geojson \<Rightarrow> error + (rat \<times> (rat \<times> rat))" where
  "get_maximum data =
     (case py_max get_magnitude (features data) of
        Inl e \<Rightarrow> Inl e
      | Inr max_earthquake \<Rightarrow> Inr (get_magnitude max_earthquake, get_location max_earthquake))"

section \<open>Extracting years and magnitudes\<close>

text \<open>
  \<open>datetime.fromtimestamp(t).year\<close> converts in the time zone of the machine and raises
  (ValueError, OverflowError) on a timestamp outside the range the platform supports. It
  is a parameter here: a function from the timestamp in seconds to the year, or to the
  exception raised. The division of the milliseconds by 1000 is exact in this model.
  The loop of \<open>extract_earthquake_data\<close> appends to \<open>years\<close> and \<open>magnitudes\<close>.
\<close>

fun extract_loop ::
  "(rat \<Rightarrow> error + int) \<Rightarrow> earthquake list \<Rightarrow> int list \<Rightarrow> rat list
     \<Rightarrow> error + (int list \<times> rat list)" where
  "extract_loop fromtimestamp_year [] years magnitudes = Inr (years, magnitudes)"
| "extract_loop fromtimestamp_year (earthquake # rest) years magnitudes =
     (let timestamp_ms = time (properties earthquake) in
      case fromtimestamp_year (of_int timestamp_ms / 1000) of
        Inl e \<Rightarrow> Inl e
      | Inr year \<Rightarrow>
          (let magnitude = mag (properties earthquake)
           in extract_loop fromtimestamp_year rest (years @ [year]) (magnitudes @ [magnitude])))"

definition extract_earthquake_data ::
  "(rat \<Rightarrow> error + int) \<Rightarrow> geojson \<Rightarrow> error + (int list \<times> rat list)" where
  "extract_earthquake_data fromtimestamp_year data =
     extract_loop fromtimestamp_year (features data) [] []"

section \<open>The summary\<close>

text \<open>
  Comparison, maximum, minimum and addition of floating-point values: a comparison with
  not-a-number is false, and the other operations propagate it.
\<close>

fun fle :: "npfloat \<Rightarrow> npfloat \<Rightarrow> bool" where
  "fle (Finite a) (Finite b) = (a \<le> b)"
| "fle _ _ = False"

definition isnan :: "npfloat \<Rightarrow> bool" where
  "isnan x = (x = NaN)"

fun fmax :: "npfloat \<Rightarrow> npfloat \<Rightarrow> npfloat" where
  "fmax (Finite a) (Finite b) = Finite (max a b)"
| "fmax _ _ = NaN"

fun fmin :: "npfloat \<Rightarrow> npfloat \<Rightarrow> npfloat" where
  "fmin (Finite a) (Finite b) = Finite (min a b)"
| "fmin _ _ = NaN"

fun fadd :: "npfloat \<Rightarrow> npfloat \<Rightarrow> npfloat" where
  "fadd (Finite a) (Finite b) = Finite (a + b)"
| "fadd _ _ = NaN"

text \<open>
  The scan behind \<open>np.argmax\<close> and \<open>np.argmin\<close>. \<open>mp\<close> is the best value so far and
  \<open>ind\<close> its index, \<open>i\<close> the index of the next element. An element replaces the best one
  only when \<open>better\<close> holds, so an equal element later in the array never does; the scan
  stops at a value for which \<open>stop\<close> holds (not-a-number). An empty array raises
  ValueError.
\<close>

fun arg_scan ::
  "('a \<Rightarrow> 'a \<Rightarrow> bool) \<Rightarrow> ('a \<Rightarrow> bool) \<Rightarrow> 'a \<Rightarrow> nat \<Rightarrow> nat \<Rightarrow> 'a list \<Rightarrow> nat" where
  "arg_scan better stop mp ind i [] = ind"
| "arg_scan better stop mp ind i (x # ip) =
     (if better x mp
      then (if stop x then i else arg_scan better stop x i (Suc i) ip)
      else arg_scan better stop mp ind (Suc i) ip)"

definition np_arg :: "('a \<Rightarrow> 'a \<Rightarrow> bool) \<Rightarrow> ('a \<Rightarrow> bool) \<Rightarrow> 'a list \<Rightarrow> error + nat" where
  "np_arg better stop a =
     (case a of
        [] \<Rightarrow> Inl ValueError
      | x # ip \<Rightarrow> Inr (if stop x then 0 else arg_scan better stop x 0 1 ip))"

definition np_argmax_int :: "nat list \<Rightarrow> error + nat" where
  "np_argmax_int a = np_arg (\<lambda>x mp. x > mp) (\<lambda>x. False) a"

definition np_argmin_int :: "nat list \<Rightarrow> error + nat" where
  "np_argmin_int a = np_arg (\<lambda>x mp. mp > x) (\<lambda>x. False) a"

definition np_argmax_float :: "npfloat list \<Rightarrow> error + nat" where
  "np_argmax_float a = np_arg (\<lambda>x mp. \<not> fle x mp) isnan a"

definition np_argmin_float :: "npfloat list \<Rightarrow> error + nat" where
  "np_argmin_float a = np_arg (\<lambda>x mp. \<not> fle mp x) isnan a"

text \<open>\<open>np.max\<close> and \<open>np.min\<close>: a reduction from the first element; ValueError on an empty array.\<close>

definition np_reduce :: "('a \<Rightarrow> 'a \<Rightarrow> 'a) \<Rightarrow> 'a list \<Rightarrow> error + 'a" where
  "np_reduce f a = (case a of [] \<Rightarrow> Inl ValueError | x # rest \<Rightarrow> Inr (fold f rest x))"

text \<open>\<open>np.mean\<close> of a floating-point array: not-a-number when empty or when an element is.\<close>

definition np_mean_float :: "npfloat list \<Rightarrow> npfloat" where
  "np_mean_float a =
     (if a = [] then NaN
      else case fold fadd a (Finite 0) of
             NaN \<Rightarrow> NaN
           | Finite s \<Rightarrow> Finite (s / of_nat (length a)))"

text \<open>\<open>a[i]\<close> for \<open>i \<ge> 0\<close>, and \<open>a[-1]\<close>; IndexError out of range.\<close>

definition item :: "'a list \<Rightarrow> nat \<Rightarrow> error + 'a" where
  "item a i = (if i < length a then Inr (a ! i) else Inl IndexError)"

definition item_last :: "'a list \<Rightarrow> error + 'a" where
  "item_last a = (if a = [] then Inl IndexError else Inr (last a))"

text \<open>An exception raised by a step ends the whole computation.\<close>

definition bind_result :: "error + 'a \<Rightarrow> ('a \<Rightarrow> error + 'b) \<Rightarrow> error + 'b" where
  "bind_result r f = (case r of Inl e \<Rightarrow> Inl e | Inr v \<Rightarrow> f v)"

text \<open>
  The values \<open>print_summary_statistics\<close> prints, one field for each printed line, named
  after its label; the number formatting is left out. The expressions are evaluated in the
  order of the source, and the first that raises ends the call.
\<close>

record summary =
  data_period :: "int \<times> int"
  total_years_analyzed :: nat
  total_earthquakes :: nat
  average_earthquakes_per_year :: npfloat
  year_with_most_earthquakes :: "int \<times> nat"
  year_with_fewest_earthquakes :: "int \<times> nat"
  overall_average_magnitude :: npfloat
  highest_average_magnitude_year :: "int \<times> npfloat"
  lowest_average_magnitude_year :: "int \<times> npfloat"

definition print_summary_statistics ::
  "int list \<Rightarrow> nat list \<Rightarrow> npfloat list \<Rightarrow> error + summary" where
  "print_summary_statistics years frequency avg_magnitude =
     bind_result (item years 0) (\<lambda>first.
     bind_result (item_last years) (\<lambda>final.
     bind_result (np_argmax_int frequency) (\<lambda>most_ix.
     bind_result (item years most_ix) (\<lambda>most_year.
     bind_result (np_reduce max frequency) (\<lambda>most.
     bind_result (np_argmin_int frequency) (\<lambda>fewest_ix.
     bind_result (item years fewest_ix) (\<lambda>fewest_year.
     bind_result (np_reduce min frequency) (\<lambda>fewest.
     bind_result (np_argmax_float avg_magnitude) (\<lambda>highest_ix.
     bind_result (item years highest_ix) (\<lambda>highest_year.
     bind_result (np_reduce fmax avg_magnitude) (\<lambda>highest.
     bind_result (np_argmin_float avg_magnitude) (\<lambda>lowest_ix.
     bind_result (item years lowest_ix) (\<lambda>lowest_year.
     bind_result (np_reduce fmin avg_magnitude) (\<lambda>lowest.
       Inr \<lparr>data_period = (first, final),
            total_years_analyzed = length years,
            total_earthquakes = sum_list frequency,
            average_earthquakes_per_year = np_mean (map of_nat frequency),
            year_with_most_earthquakes = (most_year, most),
            year_with_fewest_earthquakes = (fewest_year, fewest),
            overall_average_magnitude = np_mean_float avg_magnitude,
            highest_average_magnitude_year = (highest_year, highest),
            lowest_average_magnitude_year = (lowest_year, lowest)\<rparr>))))))))))))))"

section \<open>Aggregation by year, on array objects\<close>

text \<open>
  The same function one level down, where the arguments are references to array objects
  that any code may share and change. The heap is the list of all objects allocated so
  far, an address is a position in it, and a fresh object gets the next address. An array
  holds years, finite magnitudes, a boolean mask, counts or the results of \<open>mean\<close>.
  Every numpy operation of \<open>analyze_earthquakes_by_year\<close> reads its operands from the heap
  and puts its result into a fresh array: \<open>np.unique\<close> sorts a copy, \<open>years == year\<close>
  builds a mask, \<open>magnitudes[year_mask]\<close> copies the selected elements, \<open>np.array\<close>
  copies a list. The two accumulators are lists local to the call. \<open>None\<close> stands for a
  call whose arguments are not arrays of the expected kind; it is outside this model.
\<close>

datatype 'm object =
    IntArray "int list"
  | FloatArray "rat list"
  | BoolArray "bool list"
  | CountArray "nat list"
  | MeanArray "'m list"

type_synonym 'm heap = "'m object list"

definition alloc :: "'m object \<Rightarrow> 'm heap \<Rightarrow> nat \<times> 'm heap" where
  "alloc ob h = (length h, h @ [ob])"

definition lookup :: "'m heap \<Rightarrow> nat \<Rightarrow> 'm object option" where
  "lookup h a = (if a < length h then Some (h ! a) else None)"

fun year_loop_heap ::
  "(rat list \<Rightarrow> 'm) \<Rightarrow> nat \<Rightarrow> nat \<Rightarrow> int list \<Rightarrow> nat list \<Rightarrow> 'm list \<Rightarrow> 'm heap
     \<Rightarrow> ((error + (nat list \<times> 'm list)) \<times> 'm heap) option" where
  "year_loop_heap mean years magnitudes [] frequency_per_year avg_magnitude_per_year h =
     Some (Inr (frequency_per_year, avg_magnitude_per_year), h)"
| "year_loop_heap mean years magnitudes (year # rest) frequency_per_year avg_magnitude_per_year h =
     (case lookup h years of
        Some (IntArray ys) \<Rightarrow>
          (case alloc (BoolArray (map (\<lambda>y. y = year) ys)) h of
             (year_mask, h1) \<Rightarrow>
               (case (lookup h1 magnitudes, lookup h1 year_mask) of
                  (Some (FloatArray ms), Some (BoolArray bs)) \<Rightarrow>
                    (case np_bool_index ms bs of
                       Inl e \<Rightarrow> Some (Inl e, h1)
                     | Inr selected \<Rightarrow>
                         (case alloc (FloatArray selected) h1 of
                            (year_magnitudes, h2) \<Rightarrow>
                              (case lookup h2 year_magnitudes of
                                 Some (FloatArray xs) \<Rightarrow>
                                   year_loop_heap mean years magnitudes rest
                                     (frequency_per_year @ [length xs])
                                     (avg_magnitude_per_year @ [mean xs]) h2
                               | _ \<Rightarrow> None)))
                | _ \<Rightarrow> None))
      | _ \<Rightarrow> None)"

definition analyze_earthquakes_by_year_heap ::
  "(rat list \<Rightarrow> 'm) \<Rightarrow> nat \<Rightarrow> nat \<Rightarrow> 'm heap
     \<Rightarrow> ((error + (nat \<times> nat \<times> nat)) \<times> 'm heap) option" where
  "analyze_earthquakes_by_year_heap mean years magnitudes h =
     (case lookup h years of
        Some (IntArray ys) \<Rightarrow>
          (case alloc (IntArray (np_unique ys)) h of
             (unique_years, h1) \<Rightarrow>
               (case lookup h1 unique_years of
                  Some (IntArray uy) \<Rightarrow>
                    (case year_loop_heap mean years magnitudes uy [] [] h1 of
                       None \<Rightarrow> None
                     | Some (Inl e, h2) \<Rightarrow> Some (Inl e, h2)
                     | Some (Inr (frequency_per_year, avg_magnitude_per_year), h2) \<Rightarrow>
                         (case alloc (CountArray frequency_per_year) h2 of
                            (frequencies, h3) \<Rightarrow>
                              (case alloc (MeanArray avg_magnitude_per_year) h3 of
                                 (averages, h4) \<Rightarrow>
                                   Some (Inr (unique_years, frequencies, averages), h4))))
                | _ \<Rightarrow> None))
      | _ \<Rightarrow> None)"

text \<open>What a result is worth to the caller: the arrays behind the three returned references.\<close>

definition contents ::
  "'m heap \<Rightarrow> error + (nat \<times> nat \<times> nat)
     \<Rightarrow> error + ('m object option \<times> 'm object option \<times> 'm object option)" where
  "contents h r =
     (case r of
        Inl e \<Rightarrow> Inl e
      | Inr (a, b, c) \<Rightarrow> Inr (lookup h a, lookup h b, lookup h c))"

section \<open>Example inputs\<close>

text \<open>
  A record set of three events (July 2000, July 2001 and one millisecond later), a world
  whose feed answers with it, and a conversion that counts mean Gregorian years from 1970
  and, like the library, rejects timestamps before the epoch or after the year 9999.
  They are the concrete inputs of the examples below.
\<close>

definition sample_data :: geojson where
  "sample_data = \<lparr>features =
     [\<lparr>properties = \<lparr>time = 962409600000, mag = 2\<rparr>, geometry = \<lparr>coordinates = (-3, 55, 10)\<rparr>\<rparr>,
      \<lparr>properties = \<lparr>time = 993945600000, mag = 4\<rparr>, geometry = \<lparr>coordinates = (-4, 56, 10)\<rparr>\<rparr>,
      \<lparr>properties = \<lparr>time = 993945600001, mag = 4\<rparr>, geometry = \<lparr>coordinates = (-5, 57, 10)\<rparr>\<rparr>]\<rparr>"

definition sample_world :: "local_file \<Rightarrow> bool \<Rightarrow> world" where
  "sample_world f wr = \<lparr>cache_file = f, cache_writable = wr, feed = Some (Document sample_data), stdout = []\<rparr>"

definition example_year :: "rat \<Rightarrow> error + int" where
  "example_year t = (if t < 0 \<or> 253402300800 \<le> t then Inl ValueError else Inr (1970 + \<lfloor>t\<rfloor> div 31556952))"

section \<open>Properties of the aggregation\<close>


lemma distinct_remdups_adj_sorted: "sorted xs \<Longrightarrow> distinct (remdups_adj xs)"
  by (induction xs rule: remdups_adj.induct) (auto)

lemma np_unique_sorted: "sorted_wrt (<) (np_unique ar)"
  by (simp add: np_unique_def strict_sorted_iff distinct_remdups_adj_sorted)

lemma np_unique_set: "set (np_unique ar) = set ar"
  by (simp add: np_unique_def)

lemma np_unique_length: "length (np_unique ar) = card (set ar)"
  using np_unique_sorted[of ar] np_unique_set[of ar]
  by (metis distinct_card strict_sorted_iff)

lemma mask_select:
  "length magnitudes = length years \<Longrightarrow>
   np_bool_index magnitudes (map (\<lambda>x. x = y) years) = Inr (year_group years magnitudes y)"
proof -
  assume len: "length magnitudes = length years"
  have "filter snd (zip magnitudes (map (\<lambda>x. x = y) years))
       = map (\<lambda>p. (fst p, True)) (filter (\<lambda>p. snd p = y) (zip magnitudes years))"
    using len by (induction magnitudes years rule: list_induct2) auto
  with len show ?thesis
    by (simp add: np_bool_index_def year_group_def o_def)
qed

lemma year_loop_closed:
  "length magnitudes = length years \<Longrightarrow>
   year_loop mean years magnitudes ys fs avs =
     Inr (fs @ map (\<lambda>y. length (year_group years magnitudes y)) ys,
          avs @ map (\<lambda>y. mean (year_group years magnitudes y)) ys)"
  by (induction ys arbitrary: fs avs) (simp_all add: mask_select)

lemma year_loop_mismatch:
  "length magnitudes \<noteq> length years \<Longrightarrow>
   year_loop mean years magnitudes (y # ys) fs avs = Inl IndexError"
  by (simp add: np_bool_index_def)

lemma analyze_closed:
  "length magnitudes = length years \<Longrightarrow>
   analyze_earthquakes_by_year mean years magnitudes =
     Inr (np_unique years,
          map (\<lambda>y. length (year_group years magnitudes y)) (np_unique years),
          map (\<lambda>y. mean (year_group years magnitudes y)) (np_unique years))"
  by (simp add: analyze_earthquakes_by_year_def year_loop_closed Let_def)

lemma analyze_mismatch:
  "length magnitudes \<noteq> length years \<Longrightarrow> years \<noteq> [] \<Longrightarrow>
   analyze_earthquakes_by_year mean years magnitudes = Inl IndexError"
proof -
  assume a: "length magnitudes \<noteq> length years" "years \<noteq> []"
  then have "set (np_unique years) \<noteq> {}" by (simp add: np_unique_set)
  then obtain y ys where "np_unique years = y # ys"
    by (cases "np_unique years") auto
  with a show ?thesis
    by (simp add: analyze_earthquakes_by_year_def year_loop_mismatch del: year_loop.simps)
qed

lemma analyze_no_years:
  "analyze_earthquakes_by_year mean [] magnitudes = Inr ([], [], [])"
  by (simp add: analyze_earthquakes_by_year_def np_unique_def)

lemma sum_list_filter_nth:
  fixes f :: "'a \<Rightarrow> 'b::comm_monoid_add"
  shows "sum_list (map f (filter P xs)) = (\<Sum>i | i < length xs \<and> P (xs ! i). f (xs ! i))"
proof (induction xs rule: rev_induct)
  case Nil
  then show ?case by simp
next
  case (snoc x xs)
  let ?S = "{i. i < length xs \<and> P (xs ! i)}"
  let ?T = "{i. i < length (xs @ [x]) \<and> P ((xs @ [x]) ! i)}"
  have fin: "finite ?S" by simp
  have T: "?T = ?S \<union> (if P x then {length xs} else {})"
    by (auto simp: nth_append less_Suc_eq)
  have same: "(\<Sum>i\<in>?S. f ((xs @ [x]) ! i)) = (\<Sum>i\<in>?S. f (xs ! i))"
    by (rule sum.cong) (auto simp: nth_append)
  show ?case
  proof (cases "P x")
    case True
    then have "?T = insert (length xs) ?S" using T by auto
    then have "(\<Sum>i\<in>?T. f ((xs @ [x]) ! i)) = f x + (\<Sum>i\<in>?S. f ((xs @ [x]) ! i))"
      using fin by simp
    with True same snoc show ?thesis by (simp add: add.commute)
  next
    case False
    then have "?T = ?S" using T by auto
    with False same snoc show ?thesis by simp
  qed
qed

lemma year_group_length:
  "length magnitudes = length years \<Longrightarrow>
   length (year_group years magnitudes y) = card {i. i < length years \<and> years ! i = y}"
proof -
  assume len: "length magnitudes = length years"
  have "{i. i < length (zip magnitudes years) \<and> snd (zip magnitudes years ! i) = y}
        = {i. i < length years \<and> years ! i = y}"
    using len by auto
  then show ?thesis
    by (simp add: year_group_def length_filter_conv_card)
qed

lemma year_group_sum:
  "length magnitudes = length years \<Longrightarrow>
   sum_list (year_group years magnitudes y)
     = (\<Sum>i | i < length years \<and> years ! i = y. magnitudes ! i)"
proof -
  assume len: "length magnitudes = length years"
  have S: "{i. i < length (zip magnitudes years) \<and> snd (zip magnitudes years ! i) = y}
        = {i. i < length years \<and> years ! i = y}"
    using len by auto
  have "sum_list (year_group years magnitudes y)
        = (\<Sum>i | i < length (zip magnitudes years) \<and> snd (zip magnitudes years ! i) = y.
              fst (zip magnitudes years ! i))"
    unfolding year_group_def by (rule sum_list_filter_nth)
  also have "\<dots> = (\<Sum>i | i < length years \<and> years ! i = y. fst (zip magnitudes years ! i))"
    by (simp only: S)
  also have "\<dots> = (\<Sum>i | i < length years \<and> years ! i = y. magnitudes ! i)"
    using len by (intro sum.cong) auto
  finally show ?thesis .
qed

lemma year_group_nonempty:
  "length magnitudes = length years \<Longrightarrow> y \<in> set years \<Longrightarrow> year_group years magnitudes y \<noteq> []"
proof -
  assume len: "length magnitudes = length years" and y: "y \<in> set years"
  from y obtain i where "i < length years" "years ! i = y" by (auto simp: in_set_conv_nth)
  then have "{i. i < length years \<and> years ! i = y} \<noteq> {}" by auto
  then have "card {i. i < length years \<and> years ! i = y} \<noteq> 0" by simp
  with year_group_length[OF len, of y] show ?thesis by auto
qed

lemma year_group_count:
  "length magnitudes = length years \<Longrightarrow>
   length (year_group years magnitudes y) = count_list years y"
  unfolding year_group_def
  by (induction magnitudes years rule: list_induct2) auto

lemma frequencies_total:
  assumes "length magnitudes = length years"
  shows "sum_list (map (\<lambda>y. length (year_group years magnitudes y)) (np_unique years))
         = length years"
proof -
  have d: "distinct (np_unique years)"
    using np_unique_sorted[of years] by (simp add: strict_sorted_iff)
  have "sum_list (map (\<lambda>y. length (year_group years magnitudes y)) (np_unique years))
        = sum_list (map (count_list years) (np_unique years))"
    using assms by (simp add: year_group_count)
  also have "\<dots> = sum (count_list years) (set (np_unique years))"
    using d by (simp add: sum_list_distinct_conv_sum_set)
  also have "\<dots> = length years"
    by (simp add: np_unique_set sum_count_set)
  finally show ?thesis .
qed

lemma year_group_positions:
  assumes "length magnitudes = length years"
  shows "year_group years magnitudes y
         = map (\<lambda>i. magnitudes ! i) (filter (\<lambda>i. years ! i = y) [0..<length years])"
proof -
  have z: "zip magnitudes years = map (\<lambda>i. (magnitudes ! i, years ! i)) [0..<length years]"
    using assms by (intro nth_equalityI) simp_all
  show ?thesis
    unfolding year_group_def by (subst z) (simp add: filter_map o_def)
qed

text \<open>In exact arithmetic the mean of the magnitudes at the positions of a year is their sum
  over the set of those positions, divided by their number.\<close>

lemma np_mean_positions:
  fixes years :: "int list"
  assumes "length magnitudes = length years" and "y \<in> set years"
  shows "np_mean (map (\<lambda>i. magnitudes ! i) (filter (\<lambda>i. years ! i = y) [0..<length years]))
         = Finite ((\<Sum>i | i < length years \<and> years ! i = y. magnitudes ! i)
                   / of_nat (card {i. i < length years \<and> years ! i = y}))"
  using assms year_group_nonempty[OF assms]
  by (simp add: year_group_positions[symmetric] np_mean_def year_group_length year_group_sum)

section \<open>Claims about the aggregation\<close>



text \<open>
  Claim C2. For non-empty year and magnitude sequences of equal length, each of the three
  returned sequences has as many elements as there are distinct years in the input, and
  the returned years are strictly ascending.
\<close>

theorem aggregate_length_and_order:
  assumes "years \<noteq> []" and "length magnitudes = length years"
  shows "\<exists>uy fr av.
           analyze_earthquakes_by_year mean years magnitudes = Inr (uy, fr, av) \<and>
           length uy = card (set years) \<and> length fr = card (set years) \<and>
           length av = card (set years) \<and> sorted_wrt (<) uy"
  using assms(2) by (simp add: analyze_closed np_unique_length np_unique_sorted)

theorem aggregate_length_and_order_witness:
  "[2001, 2000, 2001, 1999] \<noteq> ([] :: int list) \<and>
   length [2, 4, 3, 7 :: rat] = length [2001, 2000, 2001, 1999 :: int] \<and>
   (\<exists>uy fr av.
      analyze_earthquakes_by_year np_mean [2001, 2000, 2001, 1999] [2, 4, 3, 7] = Inr (uy, fr, av) \<and>
      length uy = card (set [2001, 2000, 2001, 1999 :: int]) \<and>
      length fr = card (set [2001, 2000, 2001, 1999 :: int]) \<and>
      length av = card (set [2001, 2000, 2001, 1999 :: int]) \<and> sorted_wrt (<) uy)"
  using aggregate_length_and_order
          [where years = "[2001, 2000, 2001, 1999]" and magnitudes = "[2, 4, 3, 7]" and mean = np_mean] by simp

text \<open>
  Claim C3, as the code behaves. With an empty year sequence the loop over the unique
  years runs zero times: the call raises nothing and returns three empty sequences.
\<close>

theorem empty_years_returns_empty:
  "analyze_earthquakes_by_year mean [] magnitudes = Inr ([], [], [])"
  by (rule analyze_no_years)

text \<open>
  The claim as written asks for an error on empty input; the call on two empty sequences
  returns the empty result instead.
\<close>

theorem empty_input_counterexample:
  "analyze_earthquakes_by_year np_mean [] [] = Inr ([], [], [])"
  by (simp add: analyze_earthquakes_by_year_def np_unique_def)

text \<open>
  Claim C9. Whatever the input, a call that returns gives three sequences of the same
  length whose frequencies add up to the number of input years; the only call that does
  not return is the one on a non-empty year sequence whose length differs from that of the
  magnitudes, where the boolean index raises IndexError.
\<close>

theorem frequencies_partition_input:
  "case analyze_earthquakes_by_year mean years magnitudes of
     Inr (uy, fr, av) \<Rightarrow>
       sum_list fr = length years \<and> length uy = length fr \<and> length av = length fr
   | Inl e \<Rightarrow> e = IndexError \<and> years \<noteq> [] \<and> length magnitudes \<noteq> length years"
proof (cases "length magnitudes = length years")
  case True
  then show ?thesis
    by (simp add: analyze_closed frequencies_total)
next
  case False
  show ?thesis
  proof (cases "years = []")
    case True
    then show ?thesis by (simp add: analyze_no_years)
  next
    case ne: False
    with False show ?thesis by (simp add: analyze_mismatch)
  qed
qed

theorem frequencies_partition_input_witness:
  "analyze_earthquakes_by_year np_mean [2001, 2000, 2001, 1999] [2, 4, 3, 7]
     = Inr ([1999, 2000, 2001], [1, 1, 2], [Finite 7, Finite 4, Finite (5 / 2)]) \<and>
   sum_list [1, 1, 2 :: nat] = length [2001, 2000, 2001, 1999 :: int]"
  using frequencies_partition_input
          [where years = "[2001, 2000, 2001, 1999]" and magnitudes = "[2, 4, 3, 7]" and mean = np_mean]
  by (simp add: analyze_earthquakes_by_year_def np_unique_def np_bool_index_def np_mean_def)

section \<open>Claims about loading\<close>

text \<open>
  Claim C5, as the code behaves. With \<open>use_local_file\<close> set, only a missing cache file
  makes \<open>get_data\<close> fall back to the remote query: the call then continues exactly as a
  call without \<open>use_local_file\<close>, after printing that the file was not found. A file that
  exists but cannot be read, or whose content is not JSON, raises to the caller, and
  nothing is fetched.
\<close>

theorem missing_cache_falls_back:
  "(cache_file w = Absent \<longrightarrow>
      get_data True save_to_file w =
        get_data False save_to_file
          (print_line ''Local file earthquake_data.json not found. Fetching from API...'' w)) \<and>
   (cache_file w = Unreadable \<longrightarrow> get_data True save_to_file w = (Inl PermissionError, w)) \<and>
   (cache_file w = Holds Garbage \<longrightarrow> get_data True save_to_file w = (Inl JSONDecodeError, w))"
  by (simp add: get_data_def load_local_file_def json_load_def)

theorem missing_cache_falls_back_witness:
  "get_data True False (sample_world Absent True) =
     (Inr sample_data,
      (sample_world Absent True)\<lparr>stdout :=
         [''Local file earthquake_data.json not found. Fetching from API...'',
          ''Fetching data from API...'']\<rparr>) \<and>
   get_data True False (sample_world Unreadable True) =
     (Inl PermissionError, sample_world Unreadable True) \<and>
   get_data True False (sample_world (Holds Garbage) True) =
     (Inl JSONDecodeError, sample_world (Holds Garbage) True)"
  using missing_cache_falls_back [of "sample_world Absent True" False]
        missing_cache_falls_back [of "sample_world Unreadable True" False]
        missing_cache_falls_back [of "sample_world (Holds Garbage) True" False]
  by (simp add: sample_world_def get_data_def fetch_from_api_def print_line_def json_load_def)

text \<open>
  The claim as written promises the fallback for an unreadable file too. With an
  unreadable cache file and a feed that would answer, the call raises PermissionError
  and prints nothing: no request is made.
\<close>

theorem unreadable_cache_counterexample:
  "get_data True False (sample_world Unreadable True) =
     (Inl PermissionError, sample_world Unreadable True)"
  by (simp add: sample_world_def get_data_def load_local_file_def)

text \<open>
  Claim C6, as the code behaves. With \<open>save_to_file\<close> set, a cache file that cannot be
  opened for writing makes \<open>get_data\<close> raise: after a successful fetch the call ends in
  PermissionError, returns no data, and prints nothing beyond the lines printed before the
  write.
\<close>

theorem failed_save_raises:
  assumes "\<not> cache_writable w" and "feed w = Some (Document data)"
      and "use_local_file \<longrightarrow> cache_file w = Absent"
  shows "get_data use_local_file True w =
           (Inl PermissionError,
            print_line ''Fetching data from API...''
              (if use_local_file
               then print_line ''Local file earthquake_data.json not found. Fetching from API...'' w
               else w))"
  using assms
  by (simp add: get_data_def load_local_file_def fetch_from_api_def print_line_def json_load_def)

theorem failed_save_raises_witness:
  "\<not> cache_writable (sample_world Absent False) \<and>
   feed (sample_world Absent False) = Some (Document sample_data) \<and>
   cache_file (sample_world Absent False) = Absent \<and>
   get_data False True (sample_world Absent False) =
     (Inl PermissionError, (sample_world Absent False)\<lparr>stdout := [''Fetching data from API...'']\<rparr>) \<and>
   get_data True True (sample_world Absent False) =
     (Inl PermissionError,
      (sample_world Absent False)\<lparr>stdout :=
         [''Local file earthquake_data.json not found. Fetching from API...'',
          ''Fetching data from API...'']\<rparr>)"
  using failed_save_raises [of "sample_world Absent False" sample_data False]
        failed_save_raises [of "sample_world Absent False" sample_data True]
  by (simp add: sample_world_def print_line_def)

text \<open>
  The claim as written makes the failed save non-fatal. With an unwritable cache file
  the fetched data is not returned: the result is the error.
\<close>

theorem failed_save_counterexample:
  "get_data False True (sample_world Absent False) =
     (Inl PermissionError, (sample_world Absent False)\<lparr>stdout := [''Fetching data from API...'']\<rparr>)"
  by (simp add: sample_world_def get_data_def fetch_from_api_def print_line_def json_load_def)

section \<open>Claims about extraction\<close>

lemma floor_rat_numeral: "\<lfloor>(numeral a / numeral b :: rat)\<rfloor> = numeral a div numeral b"
  using floor_divide_of_int_eq[of "numeral a" "numeral b", where ?'a = rat] by simp

lemma extract_loop_returns:
  assumes "\<forall>e\<in>set es. \<exists>y. conv (of_int (time (properties e)) / 1000) = Inr y"
  shows "\<exists>ys'. extract_loop conv es ys ms = Inr (ys @ ys', ms @ map (\<lambda>e. mag (properties e)) es) \<and>
               length ys' = length es \<and>
               (\<forall>i<length es. conv (of_int (time (properties (es ! i))) / 1000) = Inr (ys' ! i))"
  using assms
proof (induction es arbitrary: ys ms)
  case Nil
  then show ?case by simp
next
  case (Cons e es)
  then obtain y where y: "conv (of_int (time (properties e)) / 1000) = Inr y" by auto
  from Cons.prems have "\<forall>e\<in>set es. \<exists>y. conv (of_int (time (properties e)) / 1000) = Inr y"
    by simp
  from Cons.IH[OF this, of "ys @ [y]" "ms @ [mag (properties e)]"]
  obtain ys' where r: "extract_loop conv es (ys @ [y]) (ms @ [mag (properties e)])
        = Inr ((ys @ [y]) @ ys', (ms @ [mag (properties e)]) @ map (\<lambda>e. mag (properties e)) es)"
     and l: "length ys' = length es"
     and a: "\<forall>i<length es. conv (of_int (time (properties (es ! i))) / 1000) = Inr (ys' ! i)"
    by blast
  have "\<forall>i<length (e # es). conv (of_int (time (properties ((e # es) ! i))) / 1000) = Inr ((y # ys') ! i)"
    using y a by (auto simp: nth_Cons split: nat.splits)
  with r l y show ?case
    by (intro exI[of _ "y # ys'"]) simp
qed

lemma extract_loop_raises:
  "extract_loop conv es ys ms = Inl err \<Longrightarrow>
   \<exists>e\<in>set es. conv (of_int (time (properties e)) / 1000) = Inl err"
  by (induction es arbitrary: ys ms) (auto split: sum.splits)

text \<open>
  Claim C7. On a record set whose every timestamp the local-time conversion accepts,
  \<open>extract_earthquake_data\<close> returns two sequences as long as the feature list; position
  \<open>i\<close> of the first holds the year the conversion gives for the \<open>i\<close>-th timestamp
  divided by 1000, and position \<open>i\<close> of the second holds the \<open>i\<close>-th magnitude.
\<close>

theorem extract_aligned:
  assumes "\<forall>e\<in>set (features data). \<exists>y. fromtimestamp_year (of_int (time (properties e)) / 1000) = Inr y"
  shows "\<exists>years magnitudes.
           extract_earthquake_data fromtimestamp_year data = Inr (years, magnitudes) \<and>
           length years = length (features data) \<and>
           length magnitudes = length (features data) \<and>
           (\<forall>i<length (features data).
              fromtimestamp_year (of_int (time (properties (features data ! i))) / 1000) = Inr (years ! i) \<and>
              magnitudes ! i = mag (properties (features data ! i)))"
proof -
  from extract_loop_returns[OF assms, of "[]" "[]"]
  obtain ys where "extract_loop fromtimestamp_year (features data) [] []
         = Inr (ys, map (\<lambda>e. mag (properties e)) (features data))"
     and "length ys = length (features data)"
     and "\<forall>i<length (features data).
            fromtimestamp_year (of_int (time (properties (features data ! i))) / 1000) = Inr (ys ! i)"
    by auto
  then show ?thesis
    by (intro exI[of _ ys] exI[of _ "map (\<lambda>e. mag (properties e)) (features data)"])
       (simp add: extract_earthquake_data_def)
qed

theorem extract_aligned_witness:
  "extract_earthquake_data example_year sample_data = Inr ([2000, 2001, 2001], [2, 4, 4]) \<and>
   (\<exists>years magnitudes.
           extract_earthquake_data example_year sample_data = Inr (years, magnitudes) \<and>
           length years = length (features sample_data) \<and>
           length magnitudes = length (features sample_data) \<and>
           (\<forall>i<length (features sample_data).
              example_year (of_int (time (properties (features sample_data ! i))) / 1000) = Inr (years ! i) \<and>
              magnitudes ! i = mag (properties (features sample_data ! i))))"
proof -
  have h: "\<forall>e\<in>set (features sample_data). \<exists>y. example_year (of_int (time (properties e)) / 1000) = Inr y"
    by (simp add: sample_data_def example_year_def)
  have v: "extract_earthquake_data example_year sample_data = Inr ([2000, 2001, 2001], [2, 4, 4])"
    by (simp add: extract_earthquake_data_def example_year_def sample_data_def floor_rat_numeral)
  show ?thesis using v extract_aligned [OF h] by simp
qed

section \<open>Claims about the strongest earthquake\<close>

lemma max_scan_member: "max_scan key m xs \<in> set (m # xs)"
  by (induction xs arbitrary: m) auto

lemma max_scan_start: "key m \<le> key (max_scan key m xs)"
proof (induction xs arbitrary: m)
  case Nil
  then show ?case by simp
next
  case (Cons a xs)
  show ?case
  proof (cases "key a > key m")
    case True
    then have "key m \<le> key a" by simp
    also have "key a \<le> key (max_scan key a xs)" by (rule Cons.IH)
    finally show ?thesis using True by simp
  next
    case False
    then show ?thesis using Cons.IH[of m] by simp
  qed
qed

lemma max_scan_rest: "x \<in> set xs \<Longrightarrow> key x \<le> key (max_scan key m xs)"
proof (induction xs arbitrary: m)
  case Nil
  then show ?case by simp
next
  case (Cons a xs)
  show ?case
  proof (cases "x = a")
    case True
    then show ?thesis
      using max_scan_start[of key a xs] max_scan_start[of key m xs] by auto
  next
    case False
    with Cons.prems have "x \<in> set xs" by simp
    then show ?thesis using Cons.IH by simp
  qed
qed

lemma max_scan_greatest: "x \<in> set (m # xs) \<Longrightarrow> key x \<le> key (max_scan key m xs)"
  using max_scan_start[of key m xs] max_scan_rest[of x xs key m] by auto

text \<open>
  Claim C10. On a record set with at least one feature, \<open>get_maximum\<close> returns the
  \<open>mag\<close> property of one of the features together with that feature's second and first
  coordinate (latitude, then longitude), and no feature has a greater \<open>mag\<close>.
\<close>

theorem get_maximum_strongest:
  assumes "features data \<noteq> []"
  shows "\<exists>e\<in>set (features data).
           get_maximum data =
             Inr (mag (properties e),
                  (fst (snd (coordinates (geometry e))), fst (coordinates (geometry e)))) \<and>
           (\<forall>g\<in>set (features data). mag (properties g) \<le> mag (properties e))"
proof -
  from assms obtain x xs where f: "features data = x # xs" by (cases "features data") auto
  let ?m = "max_scan get_magnitude x xs"
  have "?m \<in> set (features data)" using f max_scan_member[of get_magnitude x xs] by simp
  moreover have "get_maximum data =
      Inr (mag (properties ?m),
           (fst (snd (coordinates (geometry ?m))), fst (coordinates (geometry ?m))))"
    by (simp add: get_maximum_def py_max_def f get_magnitude_def get_location_def
          split: prod.splits)
  moreover have "\<forall>g\<in>set (features data). mag (properties g) \<le> mag (properties ?m)"
    using f max_scan_greatest[of _ x xs get_magnitude] by (simp add: get_magnitude_def)
  ultimately show ?thesis by blast
qed

text \<open>
  In the example the two strongest events share magnitude 4; the first of them, at
  longitude -4 and latitude 56, is reported.
\<close>

theorem get_maximum_strongest_witness:
  "features sample_data \<noteq> [] \<and> get_maximum sample_data = Inr (4, (56, -4)) \<and>
   (\<exists>e\<in>set (features sample_data).
           get_maximum sample_data =
             Inr (mag (properties e),
                  (fst (snd (coordinates (geometry e))), fst (coordinates (geometry e)))) \<and>
           (\<forall>g\<in>set (features sample_data). mag (properties g) \<le> mag (properties e)))"
proof -
  have h: "features sample_data \<noteq> []" by (simp add: sample_data_def)
  have v: "get_maximum sample_data = Inr (4, (56, -4))"
    by (simp add: get_maximum_def py_max_def sample_data_def get_magnitude_def get_location_def)
  show ?thesis using h v get_maximum_strongest [OF h] by simp
qed

section \<open>Claims about the summary\<close>

lemma arg_scan_first_best:
  fixes k :: "'a \<Rightarrow> 'b::linorder"
  assumes ord: "\<And>x y. x \<in> A \<Longrightarrow> y \<in> A \<Longrightarrow> better x y \<longleftrightarrow> k y < k x"
      and nostop: "\<And>x. x \<in> A \<Longrightarrow> \<not> stop x"
      and mem: "set (pre @ ip) \<subseteq> A"
      and ind: "ind < length pre" and mp: "mp = pre ! ind"
      and best: "\<forall>j<length pre. k (pre ! j) \<le> k mp"
      and first: "\<forall>j<ind. k (pre ! j) < k mp"
  shows "arg_scan better stop mp ind (length pre) ip < length (pre @ ip) \<and>
         (\<forall>j<length (pre @ ip).
            k ((pre @ ip) ! j) \<le> k ((pre @ ip) ! arg_scan better stop mp ind (length pre) ip)) \<and>
         (\<forall>j<arg_scan better stop mp ind (length pre) ip.
            k ((pre @ ip) ! j) < k ((pre @ ip) ! arg_scan better stop mp ind (length pre) ip))"
  using mem ind mp best first
proof (induction ip arbitrary: pre mp ind)
  case Nil
  then show ?case by simp
next
  case (Cons x ip)
  have xA: "x \<in> A" and mpA: "mp \<in> A"
    using Cons.prems(1,2,3) by (auto simp: subset_iff)
  have app: "pre @ x # ip = (pre @ [x]) @ ip" by simp
  have len: "Suc (length pre) = length (pre @ [x])" by simp
  show ?case
  proof (cases "better x mp")
    case True
    then have lt: "k mp < k x" using ord[OF xA mpA] by simp
    have b: "\<forall>j<length (pre @ [x]). k ((pre @ [x]) ! j) \<le> k x"
      using Cons.prems(4) lt by (auto simp: nth_append less_Suc_eq intro: order.trans less_imp_le)
    have f: "\<forall>j<length pre. k ((pre @ [x]) ! j) < k x"
      using Cons.prems(4) lt by (auto simp: nth_append intro: le_less_trans)
    have "arg_scan better stop x (length pre) (length (pre @ [x])) ip < length ((pre @ [x]) @ ip) \<and>
         (\<forall>j<length ((pre @ [x]) @ ip).
            k (((pre @ [x]) @ ip) ! j) \<le> k (((pre @ [x]) @ ip) ! arg_scan better stop x (length pre) (length (pre @ [x])) ip)) \<and>
         (\<forall>j<arg_scan better stop x (length pre) (length (pre @ [x])) ip.
            k (((pre @ [x]) @ ip) ! j) < k (((pre @ [x]) @ ip) ! arg_scan better stop x (length pre) (length (pre @ [x])) ip))"
      using Cons.prems(1) b f by (intro Cons.IH) simp_all
    then show ?thesis
      using True nostop[OF xA] by (simp only: app len[symmetric] arg_scan.simps if_True if_False, blast)
  next
    case False
    then have le: "k x \<le> k mp" using ord[OF xA mpA] by simp
    have b: "\<forall>j<length (pre @ [x]). k ((pre @ [x]) ! j) \<le> k mp"
      using Cons.prems(4) le by (auto simp: nth_append less_Suc_eq)
    have f: "\<forall>j<ind. k ((pre @ [x]) ! j) < k mp"
      using Cons.prems(2,5) by (auto simp: nth_append)
    have m: "mp = (pre @ [x]) ! ind"
      using Cons.prems(2,3) by (simp add: nth_append)
    have i: "ind < length (pre @ [x])" using Cons.prems(2) by simp
    have "arg_scan better stop mp ind (length (pre @ [x])) ip < length ((pre @ [x]) @ ip) \<and>
         (\<forall>j<length ((pre @ [x]) @ ip).
            k (((pre @ [x]) @ ip) ! j) \<le> k (((pre @ [x]) @ ip) ! arg_scan better stop mp ind (length (pre @ [x])) ip)) \<and>
         (\<forall>j<arg_scan better stop mp ind (length (pre @ [x])) ip.
            k (((pre @ [x]) @ ip) ! j) < k (((pre @ [x]) @ ip) ! arg_scan better stop mp ind (length (pre @ [x])) ip))"
      using Cons.prems(1) i m b f by (intro Cons.IH) simp_all
    then show ?thesis
      using False by (simp only: app len[symmetric] arg_scan.simps if_True if_False, blast)
  qed
qed

lemma np_arg_first_best:
  fixes k :: "'a \<Rightarrow> 'b::linorder"
  assumes ord: "\<And>x y. x \<in> A \<Longrightarrow> y \<in> A \<Longrightarrow> better x y \<longleftrightarrow> k y < k x"
      and nostop: "\<And>x. x \<in> A \<Longrightarrow> \<not> stop x"
      and mem: "set a \<subseteq> A" and ne: "a \<noteq> []"
  shows "\<exists>r. np_arg better stop a = Inr r \<and> r < length a \<and>
             (\<forall>j<length a. k (a ! j) \<le> k (a ! r)) \<and> (\<forall>j<r. k (a ! j) < k (a ! r))"
proof -
  from ne obtain x ip where a: "a = x # ip" by (cases a) auto
  have xA: "x \<in> A" using mem a by simp
  have "arg_scan better stop x 0 (length [x]) ip < length ([x] @ ip) \<and>
         (\<forall>j<length ([x] @ ip).
            k (([x] @ ip) ! j) \<le> k (([x] @ ip) ! arg_scan better stop x 0 (length [x]) ip)) \<and>
         (\<forall>j<arg_scan better stop x 0 (length [x]) ip.
            k (([x] @ ip) ! j) < k (([x] @ ip) ! arg_scan better stop x 0 (length [x]) ip))"
    using mem a by (intro arg_scan_first_best[where A = A] ord nostop) simp_all
  then show ?thesis
    using nostop[OF xA] by (simp add: np_arg_def a)
qed


lemma np_argmax_int_first:
  assumes "a \<noteq> []"
  shows "\<exists>r. np_argmax_int a = Inr r \<and> r < length a \<and>
             (\<forall>j<length a. a ! j \<le> a ! r) \<and> (\<forall>j<r. a ! j \<noteq> a ! r)"
proof -
  have "\<exists>r. np_arg (\<lambda>x mp. x > mp) (\<lambda>x. False) a = Inr r \<and> r < length a \<and>
             (\<forall>j<length a. a ! j \<le> a ! r) \<and> (\<forall>j<r. a ! j < a ! r)"
    using assms by (intro np_arg_first_best[where A = UNIV and k = "\<lambda>x::nat. x"]) simp_all
  then show ?thesis unfolding np_argmax_int_def by fastforce
qed

lemma np_argmin_int_first:
  assumes "a \<noteq> []"
  shows "\<exists>r. np_argmin_int a = Inr r \<and> r < length a \<and>
             (\<forall>j<length a. a ! r \<le> a ! j) \<and> (\<forall>j<r. a ! j \<noteq> a ! r)"
proof -
  have "\<exists>r. np_arg (\<lambda>x mp. mp > x) (\<lambda>x. False) a = Inr r \<and> r < length a \<and>
             (\<forall>j<length a. - int (a ! j) \<le> - int (a ! r)) \<and> (\<forall>j<r. - int (a ! j) < - int (a ! r))"
    using assms by (intro np_arg_first_best[where A = UNIV and k = "\<lambda>x::nat. - int x"]) simp_all
  then show ?thesis unfolding np_argmin_int_def by fastforce
qed

lemma np_argmax_float_first:
  assumes "a \<noteq> []" and "NaN \<notin> set a"
  shows "\<exists>r. np_argmax_float a = Inr r \<and> r < length a \<and>
             (\<forall>j<length a. fle (a ! j) (a ! r)) \<and> (\<forall>j<r. a ! j \<noteq> a ! r)"
proof -
  let ?k = "\<lambda>x. case x of Finite v \<Rightarrow> v | NaN \<Rightarrow> 0"
  let ?A = "{x. x \<noteq> NaN}"
  have ord: "(\<not> fle x y) \<longleftrightarrow> ?k y < ?k x" if "x \<in> ?A" "y \<in> ?A" for x y
    using that by (cases x; cases y) auto
  have fin: "a ! j \<in> ?A" if "j < length a" for j
    using that assms(2) nth_mem by fastforce
  have "\<exists>r. np_arg (\<lambda>x mp. \<not> fle x mp) isnan a = Inr r \<and> r < length a \<and>
             (\<forall>j<length a. ?k (a ! j) \<le> ?k (a ! r)) \<and> (\<forall>j<r. ?k (a ! j) < ?k (a ! r))"
    using assms by (intro np_arg_first_best[where A = ?A] ord) (auto simp: isnan_def)
  then obtain r where r: "np_arg (\<lambda>x mp. \<not> fle x mp) isnan a = Inr r" "r < length a"
      and b: "\<forall>j<length a. ?k (a ! j) \<le> ?k (a ! r)" and f: "\<forall>j<r. ?k (a ! j) < ?k (a ! r)"
    by blast
  have "fle (a ! j) (a ! r)" if "j < length a" for j
    using ord[OF fin[OF that] fin[OF r(2)]] b that by (auto simp: not_less)
  moreover have "a ! j \<noteq> a ! r" if "j < r" for j
    using f that by fastforce
  ultimately show ?thesis using r unfolding np_argmax_float_def by blast
qed

lemma np_argmin_float_first:
  assumes "a \<noteq> []" and "NaN \<notin> set a"
  shows "\<exists>r. np_argmin_float a = Inr r \<and> r < length a \<and>
             (\<forall>j<length a. fle (a ! r) (a ! j)) \<and> (\<forall>j<r. a ! j \<noteq> a ! r)"
proof -
  let ?k = "\<lambda>x. case x of Finite v \<Rightarrow> - v | NaN \<Rightarrow> 0"
  let ?A = "{x. x \<noteq> NaN}"
  have ord: "(\<not> fle y x) \<longleftrightarrow> ?k y < ?k x" if "x \<in> ?A" "y \<in> ?A" for x y
    using that by (cases x; cases y) auto
  have fin: "a ! j \<in> ?A" if "j < length a" for j
    using that assms(2) nth_mem by fastforce
  have "\<exists>r. np_arg (\<lambda>x mp. \<not> fle mp x) isnan a = Inr r \<and> r < length a \<and>
             (\<forall>j<length a. ?k (a ! j) \<le> ?k (a ! r)) \<and> (\<forall>j<r. ?k (a ! j) < ?k (a ! r))"
    using assms by (intro np_arg_first_best[where A = ?A] ord) (auto simp: isnan_def)
  then obtain r where r: "np_arg (\<lambda>x mp. \<not> fle mp x) isnan a = Inr r" "r < length a"
      and b: "\<forall>j<length a. ?k (a ! j) \<le> ?k (a ! r)" and f: "\<forall>j<r. ?k (a ! j) < ?k (a ! r)"
    by blast
  have "fle (a ! r) (a ! j)" if "j < length a" for j
    using ord[OF fin[OF that] fin[OF r(2)]] b that by (auto simp: not_less)
  moreover have "a ! j \<noteq> a ! r" if "j < r" for j
    using f that by fastforce
  ultimately show ?thesis using r unfolding np_argmin_float_def by blast
qed

lemma earliest_of_first:
  assumes "sorted_wrt (<) years" and "r < length years" and "length a = length years"
      and "\<forall>j<r. a ! j \<noteq> a ! r"
  shows "\<forall>j<length years. a ! j = a ! r \<longrightarrow> years ! r \<le> (years ! j :: int)"
proof (intro allI impI)
  fix j assume j: "j < length years" and eq: "a ! j = a ! r"
  have "\<not> j < r" using assms(4) eq by blast
  then have "r \<le> j" by simp
  moreover have "sorted years" using assms(1) by (rule strict_sorted_imp_sorted)
  ultimately show "years ! r \<le> years ! j" using j by (simp add: sorted_nth_mono)
qed

lemma np_reduce_returns: "a \<noteq> [] \<Longrightarrow> \<exists>v. np_reduce f a = Inr v"
  by (cases a) (simp_all add: np_reduce_def)

text \<open>
  Claim C4. On an aggregate sequence (years strictly ascending, one frequency and one
  finite average for each year) \<open>print_summary_statistics\<close> returns, and each of the four
  years it reports (most and fewest earthquakes, highest and lowest average magnitude)
  belongs to a position that attains the extreme value and is no later than any other
  year with the same value: on a tie the earliest year is reported.
\<close>

theorem summary_tie_break:
  assumes "sorted_wrt (<) years" and "years \<noteq> []"
      and "length frequency = length years" and "length avg_magnitude = length years"
      and "NaN \<notin> set avg_magnitude"
  shows "\<exists>s. print_summary_statistics years frequency avg_magnitude = Inr s \<and>
     (\<exists>i<length years. fst (year_with_most_earthquakes s) = years ! i \<and>
         (\<forall>j<length years. frequency ! j \<le> frequency ! i) \<and>
         (\<forall>j<length years. frequency ! j = frequency ! i \<longrightarrow> years ! i \<le> years ! j)) \<and>
     (\<exists>i<length years. fst (year_with_fewest_earthquakes s) = years ! i \<and>
         (\<forall>j<length years. frequency ! i \<le> frequency ! j) \<and>
         (\<forall>j<length years. frequency ! j = frequency ! i \<longrightarrow> years ! i \<le> years ! j)) \<and>
     (\<exists>i<length years. fst (highest_average_magnitude_year s) = years ! i \<and>
         (\<forall>j<length years. fle (avg_magnitude ! j) (avg_magnitude ! i)) \<and>
         (\<forall>j<length years. avg_magnitude ! j = avg_magnitude ! i \<longrightarrow> years ! i \<le> years ! j)) \<and>
     (\<exists>i<length years. fst (lowest_average_magnitude_year s) = years ! i \<and>
         (\<forall>j<length years. fle (avg_magnitude ! i) (avg_magnitude ! j)) \<and>
         (\<forall>j<length years. avg_magnitude ! j = avg_magnitude ! i \<longrightarrow> years ! i \<le> years ! j))"
proof -
  have fne: "frequency \<noteq> []" and ane: "avg_magnitude \<noteq> []"
    using assms(2,3,4) by auto
  obtain r1 where r1: "np_argmax_int frequency = Inr r1" "r1 < length years"
      "\<forall>j<length years. frequency ! j \<le> frequency ! r1" "\<forall>j<r1. frequency ! j \<noteq> frequency ! r1"
    using np_argmax_int_first[OF fne] assms(3) by auto
  obtain r2 where r2: "np_argmin_int frequency = Inr r2" "r2 < length years"
      "\<forall>j<length years. frequency ! r2 \<le> frequency ! j" "\<forall>j<r2. frequency ! j \<noteq> frequency ! r2"
    using np_argmin_int_first[OF fne] assms(3) by auto
  obtain r3 where r3: "np_argmax_float avg_magnitude = Inr r3" "r3 < length years"
      "\<forall>j<length years. fle (avg_magnitude ! j) (avg_magnitude ! r3)"
      "\<forall>j<r3. avg_magnitude ! j \<noteq> avg_magnitude ! r3"
    using np_argmax_float_first[OF ane assms(5)] assms(4) by auto
  obtain r4 where r4: "np_argmin_float avg_magnitude = Inr r4" "r4 < length years"
      "\<forall>j<length years. fle (avg_magnitude ! r4) (avg_magnitude ! j)"
      "\<forall>j<r4. avg_magnitude ! j \<noteq> avg_magnitude ! r4"
    using np_argmin_float_first[OF ane assms(5)] assms(4) by auto
  obtain v1 v2 where v12: "np_reduce max frequency = Inr v1" "np_reduce min frequency = Inr v2"
    using np_reduce_returns[OF fne] by blast
  obtain v3 v4 where v34: "np_reduce fmax avg_magnitude = Inr v3" "np_reduce fmin avg_magnitude = Inr v4"
    using np_reduce_returns[OF ane] by blast
  let ?s = "\<lparr>data_period = (years ! 0, last years),
            total_years_analyzed = length years,
            total_earthquakes = sum_list frequency,
            average_earthquakes_per_year = np_mean (map of_nat frequency),
            year_with_most_earthquakes = (years ! r1, v1),
            year_with_fewest_earthquakes = (years ! r2, v2),
            overall_average_magnitude = np_mean_float avg_magnitude,
            highest_average_magnitude_year = (years ! r3, v3),
            lowest_average_magnitude_year = (years ! r4, v4)\<rparr>"
  have res: "print_summary_statistics years frequency avg_magnitude = Inr ?s"
    using assms(2) r1(1,2) r2(1,2) r3(1,2) r4(1,2) v12 v34
    by (simp add: print_summary_statistics_def bind_result_def item_def item_last_def)
  have e1: "\<forall>j<length years. frequency ! j = frequency ! r1 \<longrightarrow> years ! r1 \<le> years ! j"
    using earliest_of_first[OF assms(1) r1(2) assms(3) r1(4)] .
  have e2: "\<forall>j<length years. frequency ! j = frequency ! r2 \<longrightarrow> years ! r2 \<le> years ! j"
    using earliest_of_first[OF assms(1) r2(2) assms(3) r2(4)] .
  have e3: "\<forall>j<length years. avg_magnitude ! j = avg_magnitude ! r3 \<longrightarrow> years ! r3 \<le> years ! j"
    using earliest_of_first[OF assms(1) r3(2) assms(4) r3(4)] .
  have e4: "\<forall>j<length years. avg_magnitude ! j = avg_magnitude ! r4 \<longrightarrow> years ! r4 \<le> years ! j"
    using earliest_of_first[OF assms(1) r4(2) assms(4) r4(4)] .
  have c1: "\<exists>i<length years. fst (year_with_most_earthquakes ?s) = years ! i \<and>
         (\<forall>j<length years. frequency ! j \<le> frequency ! i) \<and>
         (\<forall>j<length years. frequency ! j = frequency ! i \<longrightarrow> years ! i \<le> years ! j)"
    using r1(2,3) e1 by (intro exI[of _ r1]) simp
  have c2: "\<exists>i<length years. fst (year_with_fewest_earthquakes ?s) = years ! i \<and>
         (\<forall>j<length years. frequency ! i \<le> frequency ! j) \<and>
         (\<forall>j<length years. frequency ! j = frequency ! i \<longrightarrow> years ! i \<le> years ! j)"
    using r2(2,3) e2 by (intro exI[of _ r2]) simp
  have c3: "\<exists>i<length years. fst (highest_average_magnitude_year ?s) = years ! i \<and>
         (\<forall>j<length years. fle (avg_magnitude ! j) (avg_magnitude ! i)) \<and>
         (\<forall>j<length years. avg_magnitude ! j = avg_magnitude ! i \<longrightarrow> years ! i \<le> years ! j)"
    using r3(2,3) e3 by (intro exI[of _ r3]) simp
  have c4: "\<exists>i<length years. fst (lowest_average_magnitude_year ?s) = years ! i \<and>
         (\<forall>j<length years. fle (avg_magnitude ! i) (avg_magnitude ! j)) \<and>
         (\<forall>j<length years. avg_magnitude ! j = avg_magnitude ! i \<longrightarrow> years ! i \<le> years ! j)"
    using r4(2,3) e4 by (intro exI[of _ r4]) simp
  show ?thesis
    using res c1 c2 c3 c4 by (intro exI[of _ ?s] conjI)
qed

text \<open>
  Years 2000 and 2003 share the maximum count, 2001 and 2004 the minimum; 2001 and 2003
  share the highest average, 2000 and 2004 the lowest. The earlier year is reported each
  time.
\<close>

theorem summary_tie_break_witness:
  "print_summary_statistics [2000, 2001, 2003, 2004] [2, 1, 2, 1]
      [Finite 3, Finite 4, Finite 4, Finite 3] =
     Inr \<lparr>data_period = (2000, 2004), total_years_analyzed = 4, total_earthquakes = 6,
          average_earthquakes_per_year = Finite (3 / 2),
          year_with_most_earthquakes = (2000, 2),
          year_with_fewest_earthquakes = (2001, 1),
          overall_average_magnitude = Finite (7 / 2),
          highest_average_magnitude_year = (2001, Finite 4),
          lowest_average_magnitude_year = (2000, Finite 3)\<rparr> \<and>
   (\<exists>s. print_summary_statistics [2000, 2001, 2003, 2004] [2, 1, 2, 1]
           [Finite 3, Finite 4, Finite 4, Finite 3] = Inr s \<and>
        fst (year_with_most_earthquakes s) = 2000 \<and>
        fst (year_with_fewest_earthquakes s) = 2001 \<and>
        fst (highest_average_magnitude_year s) = 2001 \<and>
        fst (lowest_average_magnitude_year s) = 2000)"
proof -
  have h1: "sorted_wrt (<) [2000, 2001, 2003, 2004 :: int]" by simp
  have h2: "[2000, 2001, 2003, 2004] \<noteq> ([] :: int list)" by simp
  have h3: "length [2, 1, 2, 1 :: nat] = length [2000, 2001, 2003, 2004 :: int]" by simp
  have h4: "length [Finite 3, Finite 4, Finite 4, Finite 3] = length [2000, 2001, 2003, 2004 :: int]"
    by simp
  have h5: "NaN \<notin> set [Finite 3, Finite 4, Finite 4, Finite 3]" by simp
  have v: "print_summary_statistics [2000, 2001, 2003, 2004] [2, 1, 2, 1]
      [Finite 3, Finite 4, Finite 4, Finite 3] =
     Inr \<lparr>data_period = (2000, 2004), total_years_analyzed = 4, total_earthquakes = 6,
          average_earthquakes_per_year = Finite (3 / 2),
          year_with_most_earthquakes = (2000, 2),
          year_with_fewest_earthquakes = (2001, 1),
          overall_average_magnitude = Finite (7 / 2),
          highest_average_magnitude_year = (2001, Finite 4),
          lowest_average_magnitude_year = (2000, Finite 3)\<rparr>"
    by (simp add: print_summary_statistics_def bind_result_def item_def item_last_def
          np_argmax_int_def np_argmin_int_def np_argmax_float_def np_argmin_float_def
          np_arg_def np_reduce_def np_mean_def np_mean_float_def isnan_def)
  show ?thesis
    using v summary_tie_break [OF h1 h2 h3 h4 h5] by simp
qed

section \<open>Claims about purity\<close>

text \<open>
  The call on array objects only adds objects to the heap, and the arrays it returns hold
  what the function on values computes from the contents of the two argument arrays.
\<close>

lemma lookup_append: "a < length h \<Longrightarrow> lookup (h @ junk) a = lookup h a"
  by (simp add: lookup_def nth_append)

lemma lookup_Some_less: "lookup h a = Some ob \<Longrightarrow> a < length h"
  by (simp add: lookup_def split: if_splits)

lemma lookup_fresh: "lookup (h @ [ob]) (length h) = Some ob"
  by (simp add: lookup_def)

lemma year_loop_heap_refines:
  assumes "lookup h years = Some (IntArray ys)" and "lookup h magnitudes = Some (FloatArray ms)"
  shows "\<exists>junk. year_loop_heap mean years magnitudes rest fs avs h
                  = Some (year_loop mean ys ms rest fs avs, h @ junk)"
  using assms
proof (induction rest arbitrary: fs avs h)
  case Nil
  then show ?case by simp
next
  case (Cons year rest)
  let ?m = "map (\<lambda>y. y = year) ys"
  let ?h1 = "h @ [BoolArray ?m]"
  have m1: "lookup ?h1 magnitudes = Some (FloatArray ms)"
    using Cons.prems(2) lookup_Some_less lookup_append by metis
  have k1: "lookup ?h1 (length h) = Some (BoolArray ?m)" by (rule lookup_fresh)
  show ?case
  proof (cases "np_bool_index ms ?m")
    case (Inl e)
    then have "year_loop_heap mean years magnitudes (year # rest) fs avs h
               = Some (year_loop mean ys ms (year # rest) fs avs, h @ [BoolArray ?m])"
      using Cons.prems(1) m1 k1 by (simp add: alloc_def)
    then show ?thesis by blast
  next
    case (Inr sel)
    let ?h2 = "?h1 @ [FloatArray sel]"
    have y2: "lookup ?h2 years = Some (IntArray ys)"
      using Cons.prems(1) lookup_Some_less[OF Cons.prems(1)] by (simp add: lookup_def nth_append)
    have m2: "lookup ?h2 magnitudes = Some (FloatArray ms)"
      using Cons.prems(2) lookup_Some_less[OF Cons.prems(2)] by (simp add: lookup_def nth_append)
    have k2: "lookup ?h2 (length ?h1) = Some (FloatArray sel)" by (rule lookup_fresh)
    from Cons.IH[OF y2 m2, of "fs @ [length sel]" "avs @ [mean sel]"]
    obtain junk where j: "year_loop_heap mean years magnitudes rest (fs @ [length sel]) (avs @ [mean sel]) ?h2
         = Some (year_loop mean ys ms rest (fs @ [length sel]) (avs @ [mean sel]), ?h2 @ junk)"
      by blast
    have "year_loop_heap mean years magnitudes (year # rest) fs avs h
          = year_loop_heap mean years magnitudes rest (fs @ [length sel]) (avs @ [mean sel]) ?h2"
      using Cons.prems(1) m1 k1 k2 Inr by (simp add: alloc_def)
    moreover have "year_loop mean ys ms (year # rest) fs avs
          = year_loop mean ys ms rest (fs @ [length sel]) (avs @ [mean sel])"
      using Inr by simp
    ultimately have "year_loop_heap mean years magnitudes (year # rest) fs avs h
         = Some (year_loop mean ys ms (year # rest) fs avs, h @ ([BoolArray ?m, FloatArray sel] @ junk))"
      using j by simp
    then show ?thesis by blast
  qed
qed

lemma analyze_heap_refines:
  assumes "lookup h years = Some (IntArray ys)" and "lookup h magnitudes = Some (FloatArray ms)"
  shows "\<exists>res junk.
           analyze_earthquakes_by_year_heap mean years magnitudes h = Some (res, h @ junk) \<and>
           contents (h @ junk) res =
             (case analyze_earthquakes_by_year mean ys ms of
                Inl e \<Rightarrow> Inl e
              | Inr (uy, fr, av) \<Rightarrow>
                  Inr (Some (IntArray uy), Some (CountArray fr), Some (MeanArray av)))"
proof -
  let ?uy = "np_unique ys"
  let ?h1 = "h @ [IntArray ?uy]"
  have y1: "lookup ?h1 years = Some (IntArray ys)"
    using assms(1) lookup_Some_less[OF assms(1)] by (simp add: lookup_def nth_append)
  have m1: "lookup ?h1 magnitudes = Some (FloatArray ms)"
    using assms(2) lookup_Some_less[OF assms(2)] by (simp add: lookup_def nth_append)
  have u1: "lookup ?h1 (length h) = Some (IntArray ?uy)" by (rule lookup_fresh)
  from year_loop_heap_refines[OF y1 m1, where rest = ?uy and fs = "[]" and avs = "[]" and mean = mean]
  obtain junk where j: "year_loop_heap mean years magnitudes ?uy [] [] ?h1
        = Some (year_loop mean ys ms ?uy [] [], ?h1 @ junk)"
    by blast
  show ?thesis
  proof (cases "year_loop mean ys ms ?uy [] []")
    case (Inl e)
    then have "analyze_earthquakes_by_year_heap mean years magnitudes h
               = Some (Inl e, h @ ([IntArray ?uy] @ junk))"
      using assms(1) u1 j by (simp add: analyze_earthquakes_by_year_heap_def alloc_def)
    moreover have "analyze_earthquakes_by_year mean ys ms = Inl e"
      using Inl by (simp add: analyze_earthquakes_by_year_def)
    ultimately show ?thesis
      by (intro exI[of _ "Inl e"] exI[of _ "[IntArray ?uy] @ junk"]) (simp add: contents_def)
  next
    case (Inr p)
    obtain fr av where p: "p = (fr, av)" by (cases p)
    let ?h2 = "?h1 @ junk"
    let ?new = "[IntArray ?uy] @ junk @ [CountArray fr, MeanArray av]"
    have call: "analyze_earthquakes_by_year_heap mean years magnitudes h
               = Some (Inr (length h, length ?h2, Suc (length ?h2)), h @ ?new)"
      using assms(1) u1 j Inr p by (simp add: analyze_earthquakes_by_year_heap_def alloc_def)
    have val: "analyze_earthquakes_by_year mean ys ms = Inr (?uy, fr, av)"
      using Inr p by (simp add: analyze_earthquakes_by_year_def)
    have c: "contents (h @ ?new) (Inr (length h, length ?h2, Suc (length ?h2)))
             = Inr (Some (IntArray ?uy), Some (CountArray fr), Some (MeanArray av))"
      by (simp add: contents_def lookup_def nth_append)
    show ?thesis
      using call val c
      by (intro exI[of _ "Inr (length h, length ?h2, Suc (length ?h2))"] exI[of _ ?new]) simp
  qed
qed

text \<open>
  Claim C8. Let the arrays at \<open>years\<close> and \<open>magnitudes\<close> in a heap \<open>h\<close> hold the same
  values as the arrays at \<open>years'\<close> and \<open>magnitudes'\<close> in any other heap \<open>g\<close>. A call in
  \<open>h\<close>, a second call on the same references in the heap the first call left behind, and
  a call in \<open>g\<close> all return, and their outputs hold identical values (or they raise the
  same exception). Whatever else the heaps contain plays no part, and no call changes an
  object that existed before it.
\<close>

theorem analyze_is_pure:
  assumes "lookup h years = Some (IntArray ys)" and "lookup h magnitudes = Some (FloatArray ms)"
      and "lookup g years' = Some (IntArray ys)" and "lookup g magnitudes' = Some (FloatArray ms)"
  shows "\<exists>r1 h1 r2 h2 r3 g3.
           analyze_earthquakes_by_year_heap mean years magnitudes h = Some (r1, h1) \<and>
           analyze_earthquakes_by_year_heap mean years magnitudes h1 = Some (r2, h2) \<and>
           analyze_earthquakes_by_year_heap mean years' magnitudes' g = Some (r3, g3) \<and>
           contents h2 r2 = contents h1 r1 \<and>
           contents g3 r3 = contents h1 r1 \<and>
           take (length h) h2 = h \<and> take (length g) g3 = g"
proof -
  let ?v = "case analyze_earthquakes_by_year mean ys ms of
                Inl e \<Rightarrow> Inl e
              | Inr (uy, fr, av) \<Rightarrow>
                  Inr (Some (IntArray uy), Some (CountArray fr), Some (MeanArray av))"
  from analyze_heap_refines[OF assms(1,2), where mean = mean]
  obtain r1 j1 where 1: "analyze_earthquakes_by_year_heap mean years magnitudes h = Some (r1, h @ j1)"
      "contents (h @ j1) r1 = ?v"
    by blast
  have y1: "lookup (h @ j1) years = Some (IntArray ys)"
    using assms(1) lookup_Some_less[OF assms(1)] by (simp add: lookup_append)
  have m1: "lookup (h @ j1) magnitudes = Some (FloatArray ms)"
    using assms(2) lookup_Some_less[OF assms(2)] by (simp add: lookup_append)
  from analyze_heap_refines[OF y1 m1, where mean = mean]
  obtain r2 j2 where 2: "analyze_earthquakes_by_year_heap mean years magnitudes (h @ j1) = Some (r2, (h @ j1) @ j2)"
      "contents ((h @ j1) @ j2) r2 = ?v"
    by blast
  from analyze_heap_refines[OF assms(3,4), where mean = mean]
  obtain r3 j3 where 3: "analyze_earthquakes_by_year_heap mean years' magnitudes' g = Some (r3, g @ j3)"
      "contents (g @ j3) r3 = ?v"
    by blast
  show ?thesis
    using 1 2 3
    by (intro exI[of _ r1] exI[of _ "h @ j1"] exI[of _ r2] exI[of _ "(h @ j1) @ j2"]
              exI[of _ r3] exI[of _ "g @ j3"]) simp
qed

text \<open>
  Two heaps that place the same year and magnitude arrays at different addresses, next to
  different objects.
\<close>

theorem analyze_is_pure_witness:
  "lookup [FloatArray [2, 4, 3], IntArray [2000, 2000, 2001] :: npfloat object] 1
     = Some (IntArray [2000, 2000, 2001]) \<and>
   lookup [FloatArray [2, 4, 3], IntArray [2000, 2000, 2001] :: npfloat object] 0
     = Some (FloatArray [2, 4, 3]) \<and>
   lookup [IntArray [2000, 2000, 2001], BoolArray [True], FloatArray [2, 4, 3] :: npfloat object] 0
     = Some (IntArray [2000, 2000, 2001]) \<and>
   lookup [IntArray [2000, 2000, 2001], BoolArray [True], FloatArray [2, 4, 3] :: npfloat object] 2
     = Some (FloatArray [2, 4, 3]) \<and>
   (\<exists>r1 h1 r2 h2 r3 g3.
      analyze_earthquakes_by_year_heap np_mean 1 0 [FloatArray [2, 4, 3], IntArray [2000, 2000, 2001]]
        = Some (r1, h1) \<and>
      analyze_earthquakes_by_year_heap np_mean 1 0 h1 = Some (r2, h2) \<and>
      analyze_earthquakes_by_year_heap np_mean 0 2
          [IntArray [2000, 2000, 2001], BoolArray [True], FloatArray [2, 4, 3]]
        = Some (r3, g3) \<and>
      contents h2 r2 = contents h1 r1 \<and>
      contents g3 r3 = contents h1 r1 \<and>
      contents h1 r1 = Inr (Some (IntArray [2000, 2001]), Some (CountArray [2, 1]),
                            Some (MeanArray [Finite 3, Finite 3])))"
proof -
  let ?h = "[FloatArray [2, 4, 3], IntArray [2000, 2000, 2001] :: npfloat object]"
  let ?g = "[IntArray [2000, 2000, 2001], BoolArray [True], FloatArray [2, 4, 3] :: npfloat object]"
  have a: "lookup ?h 1 = Some (IntArray [2000, 2000, 2001])" by (simp add: lookup_def)
  have b: "lookup ?h 0 = Some (FloatArray [2, 4, 3])" by (simp add: lookup_def)
  have c: "lookup ?g 0 = Some (IntArray [2000, 2000, 2001])" by (simp add: lookup_def)
  have d: "lookup ?g 2 = Some (FloatArray [2, 4, 3])" by (simp add: lookup_def)
  have v: "analyze_earthquakes_by_year_heap np_mean 1 0 ?h =
     Some (Inr (2, 7, 8),
       [FloatArray [2, 4, 3], IntArray [2000, 2000, 2001],
        IntArray [2000, 2001], BoolArray [True, True, False], FloatArray [2, 4],
        BoolArray [False, False, True], FloatArray [3], CountArray [2, 1],
        MeanArray [Finite 3, Finite 3]])"
    by (simp add: analyze_earthquakes_by_year_heap_def lookup_def alloc_def np_unique_def
          np_bool_index_def np_mean_def)
  from analyze_is_pure [OF a b c d, where mean = np_mean]
  obtain r1 h1 r2 h2 r3 g3 where w:
      "analyze_earthquakes_by_year_heap np_mean 1 0 ?h = Some (r1, h1)"
      "analyze_earthquakes_by_year_heap np_mean 1 0 h1 = Some (r2, h2)"
      "analyze_earthquakes_by_year_heap np_mean 0 2 ?g = Some (r3, g3)"
      "contents h2 r2 = contents h1 r1" "contents g3 r3 = contents h1 r1"
    by blast
  from w(1) v have "contents h1 r1 = Inr (Some (IntArray [2000, 2001]), Some (CountArray [2, 1]),
                            Some (MeanArray [Finite 3, Finite 3]))"
    by (auto simp: contents_def lookup_def)
  with a b c d w show ?thesis by blast
qed

end
